theory Spec2Isabelle
  imports Main
begin

section \<open>JavaScript strings and values used by the client\<close>

text \<open>
  \<^verbatim>\<open>String.prototype.replace\<close> with a string pattern replaces the first occurrence only.
  The client calls \<^verbatim>\<open>symbol.replace('/', '-')\<close>.
\<close>

fun replace_first :: "char \<Rightarrow> char \<Rightarrow> string \<Rightarrow> string" where
  "replace_first a b [] = []"
| "replace_first a b (c # cs) = (if c = a then b # cs else c # replace_first a b cs)"

text \<open>
  \<^verbatim>\<open>String.prototype.split\<close> with a one-character separator: the empty string gives one
  empty piece, and every separator starts a new piece.
\<close>

fun split_on :: "char \<Rightarrow> string \<Rightarrow> string list" where
  "split_on sep [] = [[]]"
| "split_on sep (c # cs) =
     (if c = sep then [] # split_on sep cs
      else (case split_on sep cs of
              [] \<Rightarrow> [[c]]
            | p # ps \<Rightarrow> (c # p) # ps))"

text \<open>Array destructuring: a position beyond the end reads \<^verbatim>\<open>undefined\<close> (here \<open>None\<close>).\<close>

fun nth_opt :: "'a list \<Rightarrow> nat \<Rightarrow> 'a option" where
  "nth_opt [] n = None"
| "nth_opt (x # xs) 0 = Some x"
| "nth_opt (x # xs) (Suc n) = nth_opt xs n"

text \<open>A string-valued expression is falsy when it is \<^verbatim>\<open>undefined\<close> or the empty string.\<close>

definition falsy :: "string option \<Rightarrow> bool" where
  "falsy v = (case v of None \<Rightarrow> True | Some s \<Rightarrow> s = [])"

text \<open>
  A property read \<^verbatim>\<open>table[key]\<close> on an object written as a literal, as the text that a
  template prints for it; \<open>None\<close> for \<^verbatim>\<open>undefined\<close>. The read finds the properties of the
  literal, here the pairs of \<open>table\<close>, and behind them the properties every object inherits
  from \<^verbatim>\<open>Object.prototype\<close>, which are functions but for \<^verbatim>\<open>__proto__\<close>, the prototype object.
  \<^verbatim>\<open>Object.keys(table)\<close> lists the properties of the literal only.
\<close>

definition inherited_property_names :: "string list" where
  "inherited_property_names =
     [''constructor'', ''hasOwnProperty'', ''isPrototypeOf'', ''propertyIsEnumerable'',
      ''toLocaleString'', ''toString'', ''valueOf'', ''__defineGetter__'',
      ''__defineSetter__'', ''__lookupGetter__'', ''__lookupSetter__'', ''__proto__'']"

definition inherited_text :: "string \<Rightarrow> string" where
  "inherited_text key =
     (if key = ''__proto__'' then ''[object Object]''
      else ''function '' @ (if key = ''constructor'' then ''Object'' else key) @
           ''() { [native code] }'')"

definition property_read :: "(string \<times> string) list \<Rightarrow> string \<Rightarrow> string option" where
  "property_read table key =
     (case map_of table key of
        Some v \<Rightarrow> Some v
      | None \<Rightarrow> if key \<in> set inherited_property_names then Some (inherited_text key) else None)"

text \<open>
  The object literals handed to \<^verbatim>\<open>JSON.stringify\<close>: an ordered list of properties.
  The frame is kept as the object, not as its serialised text.
\<close>

datatype jvalue = JNum int | JStr string | JBool bool

type_synonym frame = "(string \<times> jvalue) list"

section \<open>The connection (class of the second module, lines 152 to 461)\<close>

text \<open>
  The errors a call can raise. The source raises plain \<^verbatim>\<open>Error\<close> and \<^verbatim>\<open>TypeError\<close> objects
  told apart by their message; the constructors name them as the specification does:
  \<^item> \<open>NotConnectedError\<close>: \<^verbatim>\<open>Error('Please call connect before subscribing')\<close>;
  \<^item> \<open>InvalidIntervalError\<close>: \<^verbatim>\<open>TypeError('Wrong format waiting for: ...')\<close>;
  \<^item> \<open>ActiveSubscriptionsError\<close>: \<^verbatim>\<open>Error('You have activated subscriptions! (n)')\<close>;
  \<^item> \<open>TokenAcquisitionError\<close>: \<^verbatim>\<open>Error('Invalid public token from KuCoin')\<close>;
  \<^item> \<open>HttpRequestError\<close>: the rejection of the HTTP client's promise, passed on as it is;
  \<^item> \<open>JsTypeError\<close>: the runtime's TypeError for a property read or a method call on
    \<^verbatim>\<open>undefined\<close>.
\<close>

datatype error =
    NotConnectedError
  | InvalidIntervalError
  | ActiveSubscriptionsError
  | TokenAcquisitionError
  | HttpRequestError
  | JsTypeError

text \<open>
  A call either returns or throws. A throw does not undo the assignments made before it, so
  every operation gives back the state together with its outcome.
\<close>

datatype outcome = Returned | Thrown error

text \<open>
  The transport handle \<^verbatim>\<open>this.ws\<close>. Of the socket object the client reads \<^verbatim>\<open>readyState\<close>
  (0 CONNECTING, 1 OPEN, 2 CLOSING, 3 CLOSED) and calls \<^verbatim>\<open>send\<close> and \<^verbatim>\<open>close\<close>; the record
  keeps whether \<^verbatim>\<open>close\<close> was called. The frames handed to \<^verbatim>\<open>send\<close> are kept by the
  connection, in one list over all the sockets it has had.
\<close>

record websocket =
  readyState :: nat
  closeCalled :: bool

definition new_WebSocket :: websocket where
  "new_WebSocket = \<lparr>readyState = 0, closeCalled = False\<rparr>"

text \<open>\<^verbatim>\<open>close()\<close> starts the closing handshake: a socket that is not yet CLOSED becomes CLOSING.\<close>

definition ws_close :: "websocket \<Rightarrow> websocket" where
  "ws_close w = w\<lparr>readyState := (if readyState w = 3 then 3 else 2), closeCalled := True\<rparr>"

text \<open>
  A job pushed on \<^verbatim>\<open>queueProcessor\<close>: the closure
  \<^verbatim>\<open>() => this.send(JSON.stringify({id: Date.now(), type, topic, privateChannel: false, response: true}))\<close>.
  The closure is kept by the two values it captures; the clock is read when the job runs.
  \<open>job_frame now j\<close> is the object the job \<open>j\<close> serialises when it runs at the reading
  \<open>now\<close> of \<^verbatim>\<open>Date.now()\<close>.
\<close>

datatype job = Job (job_type: string) (job_topic: string)

definition job_frame :: "int \<Rightarrow> job \<Rightarrow> frame" where
  "job_frame now j =
     [(''id'', JNum now),
      (''type'', JStr (job_type j)),
      (''topic'', JStr (job_topic j)),
      (''privateChannel'', JBool False),
      (''response'', JBool True)]"

definition ping_frame :: "int \<Rightarrow> frame" where
  "ping_frame now = [(''id'', JNum now), (''type'', JStr ''ping'')]"

text \<open>What the connection emits, in order; the payload is the value at the time of the emit.\<close>

datatype notification =
    Subscriptions "string list"
  | SocketNotReady string
  | Reconnect nat

text \<open>
  The fields of the class, and what the connection does to its surroundings.
  \<^item> \<open>queueProcessor\<close> and \<open>queuePending\<close> are the state of the queue object: the jobs that
    wait, and whether a job has been started and its time slot has not yet ended.
  \<^item> \<open>candleCache\<close> stands for the cache of the event handler, of which the connection only
    calls \<^verbatim>\<open>clearCandleCache\<close> and \<^verbatim>\<open>deleteCandleCache\<close>.
  \<^item> \<open>emitted\<close> records the notifications emitted, \<open>pushed\<close> the jobs handed to
    \<^verbatim>\<open>queueProcessor.push\<close>, \<open>written\<close> the frames handed to \<^verbatim>\<open>ws.send\<close>, each in order.
  \<^item> \<open>clock\<close> is the reading of \<^verbatim>\<open>Date.now()\<close>, in milliseconds.
  \<^item> \<open>reconnects\<close> and \<open>replayRetries\<close> count the timers armed by \<^verbatim>\<open>reconnect()\<close> and by the
    \<^verbatim>\<open>setTimeout\<close> of the replay.
\<close>

record connection =
  ws :: "websocket option"
  socketOpen :: bool
  socketConnecting :: bool
  askingClose :: bool
  connectId :: string
  pingIntervalMs :: nat
  pingTimer :: bool
  wsPath :: string
  subscriptions :: "string list"
  queueProcessor :: "job list"
  queuePending :: bool
  candleCache :: "string list"
  emitted :: "notification list"
  pushed :: "job list"
  written :: "frame list"
  clock :: int
  reconnects :: nat
  replayRetries :: nat

text \<open>
  The constructor: the socket is not open, no close was asked, no subscription. The
  constructor does not assign \<^verbatim>\<open>socketConnecting\<close>; the field reads \<^verbatim>\<open>undefined\<close>, which is falsy.
  The queue is idle and the clock is read from the moment of the construction.
\<close>

definition new_connection :: connection where
  "new_connection =
     \<lparr>ws = None, socketOpen = False, socketConnecting = False, askingClose = False,
      connectId = [], pingIntervalMs = 0, pingTimer = False, wsPath = [],
      subscriptions = [], queueProcessor = [], queuePending = False, candleCache = [],
      emitted = [], pushed = [], written = [], clock = 0, reconnects = 0, replayRetries = 0\<rparr>"

definition emit :: "notification \<Rightarrow> connection \<Rightarrow> connection" where
  "emit n st = st\<lparr>emitted := emitted st @ [n]\<rparr>"

definition isSocketOpen :: "connection \<Rightarrow> bool" where
  "isSocketOpen st = socketOpen st"

definition isSocketConnecting :: "connection \<Rightarrow> bool" where
  "isSocketConnecting st = socketConnecting st"

definition getSubscriptionNumber :: "connection \<Rightarrow> nat" where
  "getSubscriptionNumber st = length (subscriptions st)"

text \<open>\<^verbatim>\<open>send\<close>: nothing is written when the handle is absent.\<close>

definition send :: "frame \<Rightarrow> connection \<Rightarrow> connection" where
  "send data st =
     (case ws st of
        None \<Rightarrow> st
      | Some w \<Rightarrow> st\<lparr>written := written st @ [data]\<rparr>)"

text \<open>
  The queue object is made with \<^verbatim>\<open>concurrency: 1\<close>, \<^verbatim>\<open>timeout: 250\<close> and \<^verbatim>\<open>autostart: true\<close>.
  \<^item> \<open>queue_start\<close>: with no job under way, the oldest waiting job is taken and run at once.
    The jobs of the connection never report their end, so the job stays under way until its
    time slot of 250 milliseconds ends.
  \<^item> \<open>queue_push\<close>: \<^verbatim>\<open>push\<close> appends the job and, by \<^verbatim>\<open>autostart\<close>, starts the queue: a job pushed
    on an idle queue runs inside \<^verbatim>\<open>push\<close>.
  \<^item> \<open>queue_timeout\<close>: the time slot of the job under way ends and the queue starts again.
  \<^item> \<open>queue_end\<close>: \<^verbatim>\<open>end()\<close> drops the waiting jobs and the job under way.
\<close>

definition queue_start :: "connection \<Rightarrow> connection" where
  "queue_start st =
     (if queuePending st then st
      else
        (case queueProcessor st of
           [] \<Rightarrow> st
         | j # js \<Rightarrow>
             send (job_frame (clock st) j) (st\<lparr>queueProcessor := js, queuePending := True\<rparr>)))"

definition queue_push :: "job \<Rightarrow> connection \<Rightarrow> connection" where
  "queue_push j st =
     queue_start (st\<lparr>queueProcessor := queueProcessor st @ [j], pushed := pushed st @ [j]\<rparr>)"

definition queue_timeout :: "connection \<Rightarrow> connection" where
  "queue_timeout st =
     (if queuePending st then queue_start (st\<lparr>queuePending := False\<rparr>) else st)"

definition queue_end :: "connection \<Rightarrow> connection" where
  "queue_end st = st\<lparr>queueProcessor := [], queuePending := False\<rparr>"

text \<open>
  \<^verbatim>\<open>subscribeTicker\<close>. The key is built from the symbol as given, the topic from the symbol
  with its first slash replaced.
\<close>

definition subscribeTicker :: "string \<Rightarrow> connection \<Rightarrow> outcome \<times> connection" where
  "subscribeTicker symbol st =
     (if \<not> socketOpen st then (Thrown NotConnectedError, st)
      else
        let formatSymbol = replace_first CHR ''/'' CHR ''-'' symbol;
            indexSubscription = ''ticker-'' @ symbol
        in if indexSubscription \<in> set (subscriptions st) then (Returned, st)
           else
             let st1 = st\<lparr>subscriptions := subscriptions st @ [indexSubscription]\<rparr>;
                 st2 = emit (Subscriptions (subscriptions st1)) st1
             in (case ws st2 of
                   None \<Rightarrow> (Thrown JsTypeError, st2)
                 | Some w \<Rightarrow>
                     if readyState w = 0
                     then (Returned,
                           emit (SocketNotReady
                                   (''socket not ready to subscribe ticker for: '' @ symbol)) st2)
                     else (Returned,
                           queue_push (Job ''subscribe'' (''/market/ticker:'' @ formatSymbol))
                             st2)))"

definition unsubscribeTicker :: "string \<Rightarrow> connection \<Rightarrow> outcome \<times> connection" where
  "unsubscribeTicker symbol st =
     (if \<not> socketOpen st then (Thrown NotConnectedError, st)
      else
        let formatSymbol = replace_first CHR ''/'' CHR ''-'' symbol;
            indexSubscription = ''ticker-'' @ symbol
        in if indexSubscription \<notin> set (subscriptions st) then (Returned, st)
           else
             let st1 = queue_push (Job ''unsubscribe'' (''/market/ticker:'' @ formatSymbol)) st;
                 st2 = st1\<lparr>subscriptions :=
                              filter (\<lambda>fSub. fSub \<noteq> indexSubscription) (subscriptions st1)\<rparr>
             in (Returned, emit (Subscriptions (subscriptions st2)) st2))"

text \<open>
  \<^verbatim>\<open>mapCandleInterval\<close> is a constant of the module \<^verbatim>\<open>const\<close>, a table from labels to codes. The
  candle operations take as their first argument the read \<^verbatim>\<open>mapCandleInterval[interval]\<close>,
  \<open>None\<close> for \<^verbatim>\<open>undefined\<close>; for a table written as an object literal the read is
  \<open>property_read table\<close>.
\<close>

definition subscribeCandle ::
  "(string \<rightharpoonup> string) \<Rightarrow> string \<Rightarrow> string \<Rightarrow> connection \<Rightarrow> outcome \<times> connection" where
  "subscribeCandle mapCandleInterval symbol interval st =
     (if \<not> socketOpen st then (Thrown NotConnectedError, st)
      else
        let formatSymbol = replace_first CHR ''/'' CHR ''-'' symbol;
            formatInterval = mapCandleInterval interval
        in if falsy formatInterval then (Thrown InvalidIntervalError, st)
           else
             let indexSubscription = ''candle-'' @ symbol @ ''-'' @ interval
             in if indexSubscription \<in> set (subscriptions st) then (Returned, st)
                else
                  let st1 = st\<lparr>subscriptions := subscriptions st @ [indexSubscription]\<rparr>;
                      st2 = emit (Subscriptions (subscriptions st1)) st1
                  in (case ws st2 of
                        None \<Rightarrow> (Thrown JsTypeError, st2)
                      | Some w \<Rightarrow>
                          if readyState w = 0
                          then (Returned,
                                emit (SocketNotReady
                                        (''socket not ready to subscribe candle for: '' @
                                         symbol @ '' '' @ interval)) st2)
                          else (Returned,
                                queue_push
                                  (Job ''subscribe''
                                     (''/market/candles:'' @ formatSymbol @ ''_'' @
                                      the formatInterval))
                                  st2)))"

definition unsubscribeCandle ::
  "(string \<rightharpoonup> string) \<Rightarrow> string \<Rightarrow> string \<Rightarrow> connection \<Rightarrow> outcome \<times> connection" where
  "unsubscribeCandle mapCandleInterval symbol interval st =
     (if \<not> socketOpen st then (Thrown NotConnectedError, st)
      else
        let formatSymbol = replace_first CHR ''/'' CHR ''-'' symbol;
            formatInterval = mapCandleInterval interval
        in if falsy formatInterval then (Thrown InvalidIntervalError, st)
           else
             let indexSubscription = ''candle-'' @ symbol @ ''-'' @ interval
             in if indexSubscription \<notin> set (subscriptions st) then (Returned, st)
                else
                  let st1 = queue_push
                              (Job ''unsubscribe''
                                 (''/market/candles:'' @ formatSymbol @ ''_'' @
                                  the formatInterval))
                              st;
                      st2 = st1\<lparr>subscriptions :=
                                   filter (\<lambda>fSub. fSub \<noteq> indexSubscription) (subscriptions st1)\<rparr>;
                      st3 = st2\<lparr>candleCache :=
                                   filter (\<lambda>k. k \<noteq> indexSubscription) (candleCache st2)\<rparr>
                  in (Returned, emit (Subscriptions (subscriptions st3)) st3))"

text \<open>
  \<^verbatim>\<open>closeConnection\<close>: the guard on the subscriptions, then \<^verbatim>\<open>askingClose = true\<close>, then
  \<^verbatim>\<open>this.ws.close()\<close>, which is a method call on \<^verbatim>\<open>undefined\<close> when the handle is absent.
\<close>

definition closeConnection :: "connection \<Rightarrow> outcome \<times> connection" where
  "closeConnection st =
     (if subscriptions st \<noteq> [] then (Thrown ActiveSubscriptionsError, st)
      else
        let st1 = st\<lparr>askingClose := True\<rparr>
        in (case ws st1 of
              None \<Rightarrow> (Thrown JsTypeError, st1)
            | Some w \<Rightarrow> (Returned, st1\<lparr>ws := Some (ws_close w)\<rparr>)))"

text \<open>\<^verbatim>\<open>sendPing\<close>, run by the keepalive timer. It writes to the transport itself, not through the queue.\<close>

definition sendPing :: "connection \<Rightarrow> outcome \<times> connection" where
  "sendPing st =
     (if \<not> socketOpen st then (Thrown NotConnectedError, st)
      else (Returned, send (ping_frame (clock st)) st))"

section \<open>Connecting, replay and the close handler\<close>

text \<open>
  The answer of the token endpoint as \<^verbatim>\<open>connect\<close> sees it: the promise of the HTTP client
  rejects (the endpoint cannot be reached, the status is an error, the body is not JSON), or
  it resolves to an object whose \<^verbatim>\<open>data\<close> may be missing.
\<close>

record instanceServer =
  endpoint :: string
  pingInterval :: nat

record token_data =
  token :: "string option"
  instanceServers :: "instanceServer list"

datatype token_response = RequestRejected | Response "token_data option"

text \<open>
  The calls \<^verbatim>\<open>restartPreviousSubscriptions\<close> makes with the pieces of a split key. A piece
  that is missing is \<^verbatim>\<open>undefined\<close>: as the symbol it makes \<^verbatim>\<open>symbol.replace\<close> raise, as the
  interval it is looked up and printed as the text \<^verbatim>\<open>undefined\<close>.
\<close>

definition call_subscribeTicker :: "string option \<Rightarrow> connection \<Rightarrow> outcome \<times> connection" where
  "call_subscribeTicker symbol st =
     (case symbol of
        None \<Rightarrow> (if \<not> socketOpen st then (Thrown NotConnectedError, st)
                 else (Thrown JsTypeError, st))
      | Some s \<Rightarrow> subscribeTicker s st)"

definition call_subscribeCandle ::
  "(string \<rightharpoonup> string) \<Rightarrow> string option \<Rightarrow> string option \<Rightarrow> connection
     \<Rightarrow> outcome \<times> connection" where
  "call_subscribeCandle mapCandleInterval symbol timeFrame st =
     (case symbol of
        None \<Rightarrow> (if \<not> socketOpen st then (Thrown NotConnectedError, st)
                 else (Thrown JsTypeError, st))
      | Some s \<Rightarrow>
          subscribeCandle mapCandleInterval s
            (case timeFrame of None \<Rightarrow> ''undefined'' | Some t \<Rightarrow> t) st)"

text \<open>The \<^verbatim>\<open>for\<close> loop of \<^verbatim>\<open>restartPreviousSubscriptions\<close>; a throw leaves the loop.\<close>

fun replay :: "(string \<rightharpoonup> string) \<Rightarrow> string list \<Rightarrow> connection \<Rightarrow> outcome \<times> connection" where
  "replay mapCandleInterval [] st = (Returned, st)"
| "replay mapCandleInterval (subscription # rest) st =
     (let parts = split_on CHR ''-'' subscription;
          type = nth_opt parts 0;
          symbol = nth_opt parts 1;
          timeFrame = nth_opt parts 2
      in (case (if type = Some ''ticker'' then call_subscribeTicker symbol st
                else (Returned, st)) of
            (Thrown e, st1) \<Rightarrow> (Thrown e, st1)
          | (Returned, st1) \<Rightarrow>
              (case (if type = Some ''candle''
                     then call_subscribeCandle mapCandleInterval symbol timeFrame st1
                     else (Returned, st1)) of
                 (Thrown e, st2) \<Rightarrow> (Thrown e, st2)
               | (Returned, st2) \<Rightarrow> replay mapCandleInterval rest st2)))"

definition restartPreviousSubscriptions ::
  "(string \<rightharpoonup> string) \<Rightarrow> connection \<Rightarrow> outcome \<times> connection" where
  "restartPreviousSubscriptions mapCandleInterval st =
     (if \<not> socketOpen st then (Returned, st)
      else
        (case ws st of
           None \<Rightarrow> (Thrown JsTypeError, st)
         | Some w \<Rightarrow>
             if readyState w = 0
             then (Returned,
                   (emit (SocketNotReady ''retry later to restart previous subscriptions'') st)
                     \<lparr>replayRetries := replayRetries st + 1\<rparr>)
             else
               let previousSubs = subscriptions st
               in replay mapCandleInterval previousSubs (st\<lparr>subscriptions := []\<rparr>)))"

text \<open>
  \<^verbatim>\<open>connect\<close> is asynchronous. It is cut at its suspension points:
  \<^item> \<open>connect_begin\<close>: up to the request to the token endpoint;
  \<^item> \<open>connect_response\<close>: from the answer of the endpoint to the wait for the socket, where
    \<^verbatim>\<open>openWebsocketConnection\<close> returns at once when the socket is open already;
  \<^item> \<open>openWebsocketConnection_welcome\<close>: from the arrival of the open event and of the
    welcome message to the end of \<^verbatim>\<open>connect\<close>.
  \<open>connectId\<close> is the value drawn by \<^verbatim>\<open>randomBytes\<close>.
\<close>

definition connect_begin :: "connection \<Rightarrow> connection" where
  "connect_begin st = st\<lparr>socketConnecting := True\<rparr>"

definition connect_end :: "(string \<rightharpoonup> string) \<Rightarrow> connection \<Rightarrow> outcome \<times> connection" where
  "connect_end mapCandleInterval st =
     (if subscriptions st \<noteq> [] then restartPreviousSubscriptions mapCandleInterval st
      else (Returned, st))"

text \<open>\<open>None\<close> as the outcome: the call is suspended and has not settled.\<close>

definition connect_response ::
  "(string \<rightharpoonup> string) \<Rightarrow> token_response \<Rightarrow> string \<Rightarrow> connection
     \<Rightarrow> outcome option \<times> connection" where
  "connect_response mapCandleInterval response cid st =
     (case response of
        RequestRejected \<Rightarrow> (Some (Thrown HttpRequestError), st)
      | Response d \<Rightarrow>
          (case d of
             None \<Rightarrow> (Some (Thrown TokenAcquisitionError), st\<lparr>socketConnecting := False\<rparr>)
           | Some dat \<Rightarrow>
               if falsy (token dat)
               then (Some (Thrown TokenAcquisitionError), st\<lparr>socketConnecting := False\<rparr>)
               else
                 (case instanceServers dat of
                    [] \<Rightarrow> (Some (Thrown JsTypeError), st)
                  | srv # _ \<Rightarrow>
                      let st1 = st\<lparr>askingClose := False,
                                    candleCache := [],
                                    connectId := cid,
                                    pingIntervalMs := pingInterval srv,
                                    wsPath := endpoint srv @ ''?token='' @ the (token dat) @
                                              ''&connectId='' @ cid\<rparr>
                      in if socketOpen st1
                         then (case connect_end mapCandleInterval st1 of
                                 (r, st2) \<Rightarrow> (Some r, st2))
                         else (None, st1\<lparr>ws := Some new_WebSocket\<rparr>))))"

definition openWebsocketConnection_welcome ::
  "(string \<rightharpoonup> string) \<Rightarrow> connection \<Rightarrow> outcome \<times> connection" where
  "openWebsocketConnection_welcome mapCandleInterval st =
     connect_end mapCandleInterval
       (st\<lparr>socketOpen := True, socketConnecting := False, pingTimer := True\<rparr>)"

text \<open>
  The transport reports open and the welcome message arrives: the socket in hand goes from
  CONNECTING to OPEN and the suspended \<^verbatim>\<open>connect\<close> resumes. Without a socket in CONNECTING
  there is nothing to report and the call stays suspended.
\<close>

definition transport_opened ::
  "(string \<rightharpoonup> string) \<Rightarrow> connection \<Rightarrow> outcome option \<times> connection" where
  "transport_opened mapCandleInterval st =
     (case ws st of
        None \<Rightarrow> (None, st)
      | Some w \<Rightarrow>
          if readyState w \<noteq> 0 then (None, st)
          else (case openWebsocketConnection_welcome mapCandleInterval
                       (st\<lparr>ws := Some (w\<lparr>readyState := 1\<rparr>)\<rparr>) of
                  (r, st1) \<Rightarrow> (Some r, st1)))"

text \<open>One whole execution of \<^verbatim>\<open>connect\<close> in which the handshake completes and nothing else runs.\<close>

definition connect ::
  "(string \<rightharpoonup> string) \<Rightarrow> token_response \<Rightarrow> string \<Rightarrow> connection
     \<Rightarrow> outcome option \<times> connection" where
  "connect mapCandleInterval response cid st =
     (case connect_response mapCandleInterval response cid (connect_begin st) of
        (None, st1) \<Rightarrow> transport_opened mapCandleInterval st1
      | (Some r, st1) \<Rightarrow> (Some r, st1))"

text \<open>The handler of the transport's close event; \<^verbatim>\<open>reconnect()\<close> arms a timer.\<close>

definition on_close :: "connection \<Rightarrow> connection" where
  "on_close st =
     (let st1 = (queue_end st)\<lparr>socketOpen := False, pingTimer := False, ws := None\<rparr>
      in if \<not> askingClose st1 then st1\<lparr>reconnects := reconnects st1 + 1\<rparr> else st1)"

text \<open>\<^verbatim>\<open>reconnect\<close> once its delay has passed.\<close>

definition reconnect ::
  "(string \<rightharpoonup> string) \<Rightarrow> token_response \<Rightarrow> string \<Rightarrow> connection
     \<Rightarrow> outcome option \<times> connection" where
  "reconnect mapCandleInterval response cid st =
     connect mapCandleInterval response cid
       (emit (Reconnect (length (subscriptions st))) st)"

section \<open>What happens to a connection\<close>

text \<open>
  The calls of the caller, the continuations of \<^verbatim>\<open>connect\<close> at its suspension points, the
  events of the transport and the timers, and the passing of time. The step function says
  what each does to the state, not when it can occur: a property of every sequence of events
  is a property of every execution.
\<close>

datatype event =
    ConnectCalled
  | TokenAnswered token_response string
  | SocketOpened
  | SocketClosed
  | ReconnectDue
  | SubscribeTickerCalled string
  | UnsubscribeTickerCalled string
  | SubscribeCandleCalled string string
  | UnsubscribeCandleCalled string string
  | CloseConnectionCalled
  | PingDue
  | QueueTimeout
  | ClockAdvanced nat

fun step :: "(string \<rightharpoonup> string) \<Rightarrow> connection \<Rightarrow> event \<Rightarrow> connection" where
  "step m st ConnectCalled = connect_begin st"
| "step m st (TokenAnswered response cid) = snd (connect_response m response cid st)"
| "step m st SocketOpened = snd (transport_opened m st)"
| "step m st SocketClosed = on_close st"
| "step m st ReconnectDue =
     connect_begin (emit (Reconnect (length (subscriptions st))) st)"
| "step m st (SubscribeTickerCalled symbol) = snd (subscribeTicker symbol st)"
| "step m st (UnsubscribeTickerCalled symbol) = snd (unsubscribeTicker symbol st)"
| "step m st (SubscribeCandleCalled symbol interval) = snd (subscribeCandle m symbol interval st)"
| "step m st (UnsubscribeCandleCalled symbol interval) =
     snd (unsubscribeCandle m symbol interval st)"
| "step m st CloseConnectionCalled = snd (closeConnection st)"
| "step m st PingDue = snd (sendPing st)"
| "step m st QueueTimeout = queue_timeout st"
| "step m st (ClockAdvanced n) = st\<lparr>clock := clock st + int n\<rparr>"

definition run :: "(string \<rightharpoonup> string) \<Rightarrow> event list \<Rightarrow> connection \<Rightarrow> connection" where
  "run m evs st = foldl (step m) st evs"

section \<open>Example values\<close>

definition example_table :: "(string \<times> string) list" where
  "example_table = [(''1m'', ''1min''), (''1h'', ''1hour'')]"

definition example_intervals :: "string \<rightharpoonup> string" where
  "example_intervals = property_read example_table"

definition example_response :: token_response where
  "example_response =
     Response (Some \<lparr>token = Some ''tok'',
                     instanceServers = [\<lparr>endpoint = ''wss://host/endpoint'',
                                         pingInterval = 18000\<rparr>]\<rparr>)"

text \<open>A connection after one successful \<^verbatim>\<open>connect\<close>.\<close>

definition connected :: connection where
  "connected = snd (connect example_intervals example_response ''c1'' new_connection)"

text \<open>The same connection with one ticker subscribed, and after the transport has closed.\<close>

definition subscribed :: connection where
  "subscribed = snd (subscribeTicker ''BTC/USDT'' connected)"

definition disconnected :: connection where
  "disconnected = on_close connected"

text \<open>
  A connection is made, and one keepalive interval later a ticker is subscribed and the
  keepalive timer fires before the clock moves on: the queue is idle, so the subscribe job
  runs inside the call, and the ping follows at the same reading.
\<close>

definition subscribe_then_ping :: "event list" where
  "subscribe_then_ping =
     [ClockAdvanced 1000, ConnectCalled, ClockAdvanced 200,
      TokenAnswered example_response ''c1'', ClockAdvanced 300, SocketOpened,
      ClockAdvanced 18000, SubscribeTickerCalled ''BTC/USDT'', PingDue]"

section \<open>The example values, evaluated\<close>

lemmas connect_defs = connect_def connect_response_def connect_begin_def transport_opened_def
  openWebsocketConnection_welcome_def connect_end_def restartPreviousSubscriptions_def
  reconnect_def on_close_def queue_end_def emit_def falsy_def new_WebSocket_def

lemmas queue_defs = queue_push_def queue_start_def queue_timeout_def send_def

lemma example_intervals_simps:
  "example_intervals ''1m'' = Some ''1min''"
  "example_intervals ''1h'' = Some ''1hour''"
  "example_intervals ''7m'' = None"
  "example_intervals ''USDT'' = None"
  by (simp_all add: example_intervals_def example_table_def property_read_def
      inherited_property_names_def)

lemma connected_eq:
  "connected =
     \<lparr>ws = Some \<lparr>readyState = 1, closeCalled = False\<rparr>,
      socketOpen = True, socketConnecting = False, askingClose = False,
      connectId = ''c1'', pingIntervalMs = 18000, pingTimer = True,
      wsPath = ''wss://host/endpoint?token=tok&connectId=c1'',
      subscriptions = [], queueProcessor = [], queuePending = False, candleCache = [],
      emitted = [], pushed = [], written = [], clock = 0, reconnects = 0,
      replayRetries = 0\<rparr>"
  by (simp add: connected_def connect_defs new_connection_def example_response_def)

lemma subscribed_eq:
  "subscribed =
     connected\<lparr>subscriptions := [''ticker-BTC/USDT''],
               queuePending := True,
               emitted := [Subscriptions [''ticker-BTC/USDT'']],
               pushed := [Job ''subscribe'' ''/market/ticker:BTC-USDT''],
               written := [job_frame 0 (Job ''subscribe'' ''/market/ticker:BTC-USDT'')]\<rparr>"
  by (simp add: subscribed_def subscribeTicker_def connected_eq emit_def queue_defs Let_def)

lemma disconnected_eq:
  "disconnected =
     connected\<lparr>socketOpen := False, pingTimer := False, ws := None, reconnects := 1\<rparr>"
  by (simp add: disconnected_def on_close_def queue_end_def connected_eq Let_def)

section \<open>Closing a connection\<close>

text \<open>
  C10: \<^verbatim>\<open>closeConnection()\<close> on a connection with no subscription and no transport handle
  raises the runtime's TypeError: the close is not completed and none of the four documented
  errors is raised. The flag \<^verbatim>\<open>askingClose\<close> has been set by then.
\<close>

theorem closeConnection_absent_handle:
  assumes "subscriptions st = []" and "ws st = None"
  shows "closeConnection st = (Thrown JsTypeError, st\<lparr>askingClose := True\<rparr>)"
  using assms by (simp add: closeConnection_def)

theorem closeConnection_absent_handle_witness:
  "subscriptions new_connection = [] \<and> ws new_connection = None \<and>
   closeConnection new_connection = (Thrown JsTypeError, new_connection\<lparr>askingClose := True\<rparr>) \<and>
   subscriptions disconnected = [] \<and> ws disconnected = None \<and>
   closeConnection disconnected = (Thrown JsTypeError, disconnected\<lparr>askingClose := True\<rparr>) \<and>
   JsTypeError \<notin> {NotConnectedError, InvalidIntervalError, ActiveSubscriptionsError,
                    TokenAcquisitionError}"
  using closeConnection_absent_handle [of new_connection]
        closeConnection_absent_handle [of disconnected]
  by (simp add: new_connection_def disconnected_eq connected_eq)

text \<open>
  C8: \<^verbatim>\<open>closeConnection()\<close> fails with ActiveSubscriptionsError whenever the subscription list
  is not empty, and then nothing has changed: the state returned is the state given, so no
  close was sent and \<^verbatim>\<open>askingClose\<close> is as it was. With an empty list and a transport in hand
  it sets \<^verbatim>\<open>askingClose\<close> and calls \<^verbatim>\<open>close()\<close> on the transport.
\<close>

theorem closeConnection_precondition:
  "(subscriptions st \<noteq> [] \<longrightarrow> closeConnection st = (Thrown ActiveSubscriptionsError, st)) \<and>
   (subscriptions st = [] \<longrightarrow> ws st = Some w \<longrightarrow>
      closeConnection st = (Returned, st\<lparr>askingClose := True, ws := Some (ws_close w)\<rparr>) \<and>
      closeCalled (ws_close w))"
  by (simp add: closeConnection_def ws_close_def)

theorem closeConnection_precondition_witness:
  "subscriptions subscribed \<noteq> [] \<and>
   closeConnection subscribed = (Thrown ActiveSubscriptionsError, subscribed) \<and>
   subscriptions connected = [] \<and>
   ws connected = Some \<lparr>readyState = 1, closeCalled = False\<rparr> \<and>
   closeConnection connected =
     (Returned, connected\<lparr>askingClose := True,
                          ws := Some \<lparr>readyState = 2, closeCalled = True\<rparr>\<rparr>)"
  using closeConnection_precondition [of subscribed]
        closeConnection_precondition
          [of connected "\<lparr>readyState = 1, closeCalled = False\<rparr>"]
  by (simp add: subscribed_eq connected_eq ws_close_def)

section \<open>Unsupported candle intervals\<close>

text \<open>A label that is not in the table and names no inherited property reads \<^verbatim>\<open>undefined\<close>.\<close>

lemma property_read_unsupported:
  assumes "interval \<notin> set (map fst table)" and "interval \<notin> set inherited_property_names"
  shows "property_read table interval = None"
proof -
  have "map_of table interval = None"
    using assms(1) by (simp add: map_of_eq_None_iff)
  then show ?thesis
    using assms(2) by (simp add: property_read_def)
qed

text \<open>
  C7, as the code has it: for an interval label that is not in the table of
  \<^verbatim>\<open>mapCandleInterval\<close> and is not the name of a property every object inherits,
  \<^verbatim>\<open>subscribeCandle\<close> and \<^verbatim>\<open>unsubscribeCandle\<close> throw and give back the state they were given:
  nothing is mutated, enqueued or emitted. The error is InvalidIntervalError on a connection
  whose socket is open; the check \<^verbatim>\<open>requireSocketToBeOpen\<close> comes first, so on a connection
  that is not open the error is NotConnectedError.
\<close>

theorem invalid_interval_atomic:
  assumes "interval \<notin> set (map fst table)" and "interval \<notin> set inherited_property_names"
  shows "subscribeCandle (property_read table) symbol interval st =
           (Thrown (if socketOpen st then InvalidIntervalError else NotConnectedError), st) \<and>
         unsubscribeCandle (property_read table) symbol interval st =
           (Thrown (if socketOpen st then InvalidIntervalError else NotConnectedError), st)"
  using property_read_unsupported [OF assms]
  by (simp add: subscribeCandle_def unsubscribeCandle_def falsy_def Let_def)

theorem invalid_interval_atomic_witness:
  "''7m'' \<notin> set (map fst example_table) \<and> ''7m'' \<notin> set inherited_property_names \<and>
   socketOpen subscribed \<and>
   subscribeCandle (property_read example_table) ''BTC/USDT'' ''7m'' subscribed =
     (Thrown InvalidIntervalError, subscribed) \<and>
   unsubscribeCandle (property_read example_table) ''BTC/USDT'' ''7m'' subscribed =
     (Thrown InvalidIntervalError, subscribed)"
  using invalid_interval_atomic [of "''7m''" example_table "''BTC/USDT''" subscribed]
  by (simp add: example_table_def inherited_property_names_def subscribed_eq connected_eq)

text \<open>
  C7 as stated fails: on a connection whose transport has closed, the unsupported label
  \<^verbatim>\<open>7m\<close> makes both operations fail with NotConnectedError, not with InvalidIntervalError.
\<close>

theorem invalid_interval_counterexample:
  "''7m'' \<notin> set (map fst example_table) \<and>
   \<not> isSocketOpen disconnected \<and>
   subscribeCandle (property_read example_table) ''BTC/USDT'' ''7m'' disconnected =
     (Thrown NotConnectedError, disconnected) \<and>
   unsubscribeCandle (property_read example_table) ''BTC/USDT'' ''7m'' disconnected =
     (Thrown NotConnectedError, disconnected)"
  by (simp add: example_table_def isSocketOpen_def subscribeCandle_def unsubscribeCandle_def
      disconnected_eq connected_eq)

text \<open>
  A label that names an inherited property is not in the table, yet its read is a function:
  the guard lets it pass and the key is registered.
\<close>

lemma inherited_label_registered:
  "''constructor'' \<notin> set (map fst example_table) \<and>
   fst (subscribeCandle (property_read example_table) ''BTC/USDT'' ''constructor'' connected) =
     Returned \<and>
   subscriptions
     (snd (subscribeCandle (property_read example_table) ''BTC/USDT'' ''constructor'' connected)) =
     [''candle-BTC/USDT-constructor'']"
  by (simp add: example_table_def property_read_def inherited_property_names_def
      inherited_text_def subscribeCandle_def falsy_def connected_eq emit_def queue_defs Let_def)

section \<open>Failure of the token request\<close>

text \<open>The branch of \<^verbatim>\<open>connect\<close> for a missing token resets \<^verbatim>\<open>socketConnecting\<close>.\<close>

lemma connect_missing_data:
  "connect mapCandleInterval (Response None) cid st =
     (Some (Thrown TokenAcquisitionError), st\<lparr>socketConnecting := False\<rparr>)"
  by (simp add: connect_def connect_response_def connect_begin_def)

lemma connect_missing_token:
  "falsy (token dat) \<Longrightarrow>
   connect mapCandleInterval (Response (Some dat)) cid st =
     (Some (Thrown TokenAcquisitionError), st\<lparr>socketConnecting := False\<rparr>)"
  by (simp add: connect_def connect_response_def connect_begin_def)

text \<open>
  C6 at the failing input: when the request to the token endpoint is rejected, \<^verbatim>\<open>connect\<close>
  passes the rejection on and \<^verbatim>\<open>socketConnecting\<close> stays set, so \<^verbatim>\<open>isSocketConnecting()\<close> is
  true after the failed call.
\<close>

theorem connect_request_rejected:
  "connect mapCandleInterval RequestRejected cid st =
     (Some (Thrown HttpRequestError), st\<lparr>socketConnecting := True\<rparr>) \<and>
   isSocketConnecting (snd (connect mapCandleInterval RequestRejected cid st))"
  by (simp add: connect_def connect_response_def connect_begin_def isSocketConnecting_def)

section \<open>Subscribing twice\<close>

text \<open>What a subscribe call does on an open connection whose transport is ready.\<close>

lemma subscribeTicker_ready:
  assumes "socketOpen st" and "ws st = Some w" and "readyState w \<noteq> 0"
    and "''ticker-'' @ symbol \<notin> set (subscriptions st)"
  shows "subscribeTicker symbol st =
           (Returned,
            queue_push
              (Job ''subscribe'' (''/market/ticker:'' @ replace_first CHR ''/'' CHR ''-'' symbol))
              (st\<lparr>subscriptions := subscriptions st @ [''ticker-'' @ symbol],
                  emitted := emitted st @
                    [Subscriptions (subscriptions st @ [''ticker-'' @ symbol])]\<rparr>))"
  using assms by (simp add: subscribeTicker_def emit_def Let_def)

lemma subscribeTicker_present:
  assumes "socketOpen st" and "''ticker-'' @ symbol \<in> set (subscriptions st)"
  shows "subscribeTicker symbol st = (Returned, st)"
  using assms by (simp add: subscribeTicker_def Let_def)

lemma subscribeCandle_ready:
  assumes "socketOpen st" and "ws st = Some w" and "readyState w \<noteq> 0"
    and "\<not> falsy (mapCandleInterval interval)"
    and "''candle-'' @ symbol @ ''-'' @ interval \<notin> set (subscriptions st)"
  shows "subscribeCandle mapCandleInterval symbol interval st =
           (Returned,
            queue_push
              (Job ''subscribe''
                 (''/market/candles:'' @ replace_first CHR ''/'' CHR ''-'' symbol @ ''_'' @
                  the (mapCandleInterval interval)))
              (st\<lparr>subscriptions := subscriptions st @ [''candle-'' @ symbol @ ''-'' @ interval],
                  emitted := emitted st @
                    [Subscriptions
                       (subscriptions st @ [''candle-'' @ symbol @ ''-'' @ interval])]\<rparr>))"
  using assms by (simp add: subscribeCandle_def emit_def Let_def)

lemma subscribeCandle_present:
  assumes "socketOpen st" and "\<not> falsy (mapCandleInterval interval)"
    and "''candle-'' @ symbol @ ''-'' @ interval \<in> set (subscriptions st)"
  shows "subscribeCandle mapCandleInterval symbol interval st = (Returned, st)"
  using assms by (simp add: subscribeCandle_def Let_def)

text \<open>A push changes neither the subscriptions, the flag, the socket nor the notifications.\<close>

lemma queue_push_keeps:
  "subscriptions (queue_push j st) = subscriptions st"
  "socketOpen (queue_push j st) = socketOpen st"
  "ws (queue_push j st) = ws st"
  "emitted (queue_push j st) = emitted st"
  "clock (queue_push j st) = clock st"
  "pushed (queue_push j st) = pushed st @ [j]"
  by (simp_all add: queue_defs split: list.split option.split)

text \<open>A job pushed on an idle queue is run inside the push.\<close>

lemma queue_push_idle:
  assumes "\<not> queuePending st" and "queueProcessor st = []" and "ws st = Some w"
  shows "written (queue_push j st) = written st @ [job_frame (clock st) j]"
  using assms by (simp add: queue_defs)

lemma count_list_snoc_new: "k \<notin> set xs \<Longrightarrow> count_list (xs @ [k]) k = 1"
  by (induction xs) auto

lemma subscribeTicker_twice:
  assumes "socketOpen st" and "ws st = Some w" and "readyState w \<noteq> 0"
    and "''ticker-'' @ symbol \<notin> set (subscriptions st)"
  shows "fst (subscribeTicker symbol st) = Returned"
    and "subscribeTicker symbol (snd (subscribeTicker symbol st)) =
           (Returned, snd (subscribeTicker symbol st))"
    and "count_list (subscriptions (snd (subscribeTicker symbol st))) (''ticker-'' @ symbol) = 1"
    and "pushed (snd (subscribeTicker symbol st)) =
           pushed st @
           [Job ''subscribe'' (''/market/ticker:'' @ replace_first CHR ''/'' CHR ''-'' symbol)]"
    and "\<not> queuePending st \<and> queueProcessor st = [] \<longrightarrow>
         written (snd (subscribeTicker symbol st)) =
           written st @
           [job_frame (clock st)
              (Job ''subscribe''
                 (''/market/ticker:'' @ replace_first CHR ''/'' CHR ''-'' symbol))]"
  using assms
  by (simp_all add: subscribeTicker_ready subscribeTicker_present count_list_snoc_new
      queue_push_keeps queue_push_idle)

lemma subscribeCandle_twice:
  assumes "socketOpen st" and "ws st = Some w" and "readyState w \<noteq> 0"
    and "\<not> falsy (mapCandleInterval interval)"
    and "''candle-'' @ symbol @ ''-'' @ interval \<notin> set (subscriptions st)"
  shows "fst (subscribeCandle mapCandleInterval symbol interval st) = Returned"
    and "subscribeCandle mapCandleInterval symbol interval
           (snd (subscribeCandle mapCandleInterval symbol interval st)) =
           (Returned, snd (subscribeCandle mapCandleInterval symbol interval st))"
    and "count_list (subscriptions (snd (subscribeCandle mapCandleInterval symbol interval st)))
           (''candle-'' @ symbol @ ''-'' @ interval) = 1"
    and "pushed (snd (subscribeCandle mapCandleInterval symbol interval st)) =
           pushed st @
           [Job ''subscribe''
              (''/market/candles:'' @ replace_first CHR ''/'' CHR ''-'' symbol @ ''_'' @
               the (mapCandleInterval interval))]"
    and "\<not> queuePending st \<and> queueProcessor st = [] \<longrightarrow>
         written (snd (subscribeCandle mapCandleInterval symbol interval st)) =
           written st @
           [job_frame (clock st)
              (Job ''subscribe''
                 (''/market/candles:'' @ replace_first CHR ''/'' CHR ''-'' symbol @ ''_'' @
                  the (mapCandleInterval interval)))]"
  using assms
  by (simp_all add: subscribeCandle_ready subscribeCandle_present count_list_snoc_new
      queue_push_keeps queue_push_idle)

text \<open>
  C4: on a connection that is open with a transport ready to send, subscribing to a feed that
  is not yet subscribed returns, and a second call with the same symbol (and interval, for a
  candle) returns the very state the first call left: nothing is mutated and nothing is
  emitted by it. After the two calls the key is in the subscription list exactly once and
  exactly one subscribe job was pushed on the queue; when the queue was idle, exactly one
  subscribe frame was written to the transport.
\<close>

theorem subscribe_idempotent:
  assumes "socketOpen st" and "ws st = Some w" and "readyState w \<noteq> 0"
  shows "(''ticker-'' @ symbol \<notin> set (subscriptions st) \<longrightarrow>
            fst (subscribeTicker symbol st) = Returned \<and>
            subscribeTicker symbol (snd (subscribeTicker symbol st)) =
              (Returned, snd (subscribeTicker symbol st)) \<and>
            count_list (subscriptions (snd (subscribeTicker symbol st)))
              (''ticker-'' @ symbol) = 1 \<and>
            pushed (snd (subscribeTicker symbol st)) =
              pushed st @
              [Job ''subscribe''
                 (''/market/ticker:'' @ replace_first CHR ''/'' CHR ''-'' symbol)] \<and>
            (\<not> queuePending st \<and> queueProcessor st = [] \<longrightarrow>
             written (snd (subscribeTicker symbol st)) =
               written st @
               [job_frame (clock st)
                  (Job ''subscribe''
                     (''/market/ticker:'' @ replace_first CHR ''/'' CHR ''-'' symbol))])) \<and>
         (\<not> falsy (mapCandleInterval interval) \<longrightarrow>
          ''candle-'' @ symbol @ ''-'' @ interval \<notin> set (subscriptions st) \<longrightarrow>
            fst (subscribeCandle mapCandleInterval symbol interval st) = Returned \<and>
            subscribeCandle mapCandleInterval symbol interval
              (snd (subscribeCandle mapCandleInterval symbol interval st)) =
              (Returned, snd (subscribeCandle mapCandleInterval symbol interval st)) \<and>
            count_list
              (subscriptions (snd (subscribeCandle mapCandleInterval symbol interval st)))
              (''candle-'' @ symbol @ ''-'' @ interval) = 1 \<and>
            pushed (snd (subscribeCandle mapCandleInterval symbol interval st)) =
              pushed st @
              [Job ''subscribe''
                 (''/market/candles:'' @ replace_first CHR ''/'' CHR ''-'' symbol @ ''_'' @
                  the (mapCandleInterval interval))] \<and>
            (\<not> queuePending st \<and> queueProcessor st = [] \<longrightarrow>
             written (snd (subscribeCandle mapCandleInterval symbol interval st)) =
               written st @
               [job_frame (clock st)
                  (Job ''subscribe''
                     (''/market/candles:'' @ replace_first CHR ''/'' CHR ''-'' symbol @ ''_'' @
                      the (mapCandleInterval interval)))]))"
  using subscribeTicker_twice [OF assms] subscribeCandle_twice [OF assms]
  by blast

text \<open>The two calls on the example connection, for a ticker and for a candle.\<close>

definition subscribed_twice :: connection where
  "subscribed_twice = snd (subscribeTicker ''BTC/USDT'' subscribed)"

definition candle_twice :: connection where
  "candle_twice =
     snd (subscribeCandle example_intervals ''BTC/USDT'' ''1m''
            (snd (subscribeCandle example_intervals ''BTC/USDT'' ''1m'' connected)))"

theorem subscribe_idempotent_witness:
  "socketOpen connected \<and>
   ws connected = Some \<lparr>readyState = 1, closeCalled = False\<rparr> \<and>
   ''ticker-BTC/USDT'' \<notin> set (subscriptions connected) \<and>
   \<not> queuePending connected \<and> queueProcessor connected = [] \<and>
   subscribeTicker ''BTC/USDT'' subscribed = (Returned, subscribed) \<and>
   subscriptions subscribed_twice = [''ticker-BTC/USDT''] \<and>
   pushed subscribed_twice = [Job ''subscribe'' ''/market/ticker:BTC-USDT''] \<and>
   written subscribed_twice = [job_frame 0 (Job ''subscribe'' ''/market/ticker:BTC-USDT'')] \<and>
   queueProcessor subscribed_twice = [] \<and>
   emitted subscribed_twice = [Subscriptions [''ticker-BTC/USDT'']] \<and>
   \<not> falsy (example_intervals ''1m'') \<and>
   subscriptions candle_twice = [''candle-BTC/USDT-1m''] \<and>
   pushed candle_twice = [Job ''subscribe'' ''/market/candles:BTC-USDT_1min''] \<and>
   written candle_twice = [job_frame 0 (Job ''subscribe'' ''/market/candles:BTC-USDT_1min'')]"
  using subscribe_idempotent
          [of connected "\<lparr>readyState = 1, closeCalled = False\<rparr>"
              "''BTC/USDT''" example_intervals "''1m''"]
  by (simp add: subscribed_twice_def candle_twice_def subscribed_def connected_eq falsy_def
      example_intervals_simps subscribeTicker_def subscribeCandle_def emit_def queue_defs Let_def)

section \<open>The key of a ticker subscription\<close>





section \<open>The guard on the socket\<close>

lemma subscribeTicker_not_ready:
  assumes "socketOpen st" and "ws st = Some w" and "readyState w = 0"
    and "''ticker-'' @ symbol \<notin> set (subscriptions st)"
  shows "subscribeTicker symbol st =
           (Returned,
            st\<lparr>subscriptions := subscriptions st @ [''ticker-'' @ symbol],
               emitted := emitted st @
                 [Subscriptions (subscriptions st @ [''ticker-'' @ symbol]),
                  SocketNotReady (''socket not ready to subscribe ticker for: '' @ symbol)]\<rparr>)"
  using assms by (simp add: subscribeTicker_def emit_def Let_def)

lemma subscribeCandle_not_ready:
  assumes "socketOpen st" and "ws st = Some w" and "readyState w = 0"
    and "\<not> falsy (mapCandleInterval interval)"
    and "''candle-'' @ symbol @ ''-'' @ interval \<notin> set (subscriptions st)"
  shows "subscribeCandle mapCandleInterval symbol interval st =
           (Returned,
            st\<lparr>subscriptions := subscriptions st @ [''candle-'' @ symbol @ ''-'' @ interval],
               emitted := emitted st @
                 [Subscriptions (subscriptions st @ [''candle-'' @ symbol @ ''-'' @ interval]),
                  SocketNotReady
                    (''socket not ready to subscribe candle for: '' @ symbol @ '' '' @
                     interval)]\<rparr>)"
  using assms by (simp add: subscribeCandle_def emit_def Let_def)

lemma subscribeTicker_guard:
  "(fst (subscribeTicker symbol st) = Thrown NotConnectedError) = (\<not> socketOpen st)"
  by (simp add: subscribeTicker_def Let_def split: option.split)

lemma unsubscribeTicker_guard:
  "(fst (unsubscribeTicker symbol st) = Thrown NotConnectedError) = (\<not> socketOpen st)"
  by (simp add: unsubscribeTicker_def Let_def)

lemma subscribeCandle_guard:
  "(fst (subscribeCandle mapCandleInterval symbol interval st) = Thrown NotConnectedError) =
     (\<not> socketOpen st)"
  by (simp add: subscribeCandle_def Let_def split: option.split)

lemma unsubscribeCandle_guard:
  "(fst (unsubscribeCandle mapCandleInterval symbol interval st) = Thrown NotConnectedError) =
     (\<not> socketOpen st)"
  by (simp add: unsubscribeCandle_def Let_def)

lemma not_open_unchanged:
  assumes "\<not> socketOpen st"
  shows "subscribeTicker symbol st = (Thrown NotConnectedError, st)"
    and "unsubscribeTicker symbol st = (Thrown NotConnectedError, st)"
    and "subscribeCandle mapCandleInterval symbol interval st = (Thrown NotConnectedError, st)"
    and "unsubscribeCandle mapCandleInterval symbol interval st = (Thrown NotConnectedError, st)"
  using assms
  by (simp_all add: subscribeTicker_def unsubscribeTicker_def subscribeCandle_def
      unsubscribeCandle_def)

text \<open>
  C2, as the code has it: each of the four calls fails with NotConnectedError exactly when the
  flag \<^verbatim>\<open>socketOpen\<close> is false at the time of the call, whether the connection was never
  opened or was open and has closed since; the state is then unchanged, so nothing is
  registered or removed. A subscribe call, for a ticker or for a candle with a supported
  interval, registers the key and defers the frame when the flag is set and the socket in
  hand is still CONNECTING: it emits the subscriptions and \<^verbatim>\<open>socket-not-ready\<close> and pushes no
  job.
\<close>

theorem not_connected_iff_socket_not_open:
  "((fst (subscribeTicker symbol st) = Thrown NotConnectedError) = (\<not> socketOpen st)) \<and>
   ((fst (unsubscribeTicker symbol st) = Thrown NotConnectedError) = (\<not> socketOpen st)) \<and>
   ((fst (subscribeCandle mapCandleInterval symbol interval st) = Thrown NotConnectedError) =
      (\<not> socketOpen st)) \<and>
   ((fst (unsubscribeCandle mapCandleInterval symbol interval st) = Thrown NotConnectedError) =
      (\<not> socketOpen st)) \<and>
   (\<not> socketOpen st \<longrightarrow>
      snd (subscribeTicker symbol st) = st \<and>
      snd (unsubscribeTicker symbol st) = st \<and>
      snd (subscribeCandle mapCandleInterval symbol interval st) = st \<and>
      snd (unsubscribeCandle mapCandleInterval symbol interval st) = st) \<and>
   (socketOpen st \<longrightarrow> ws st = Some w \<longrightarrow> readyState w = 0 \<longrightarrow>
    ''ticker-'' @ symbol \<notin> set (subscriptions st) \<longrightarrow>
      subscribeTicker symbol st =
        (Returned,
         st\<lparr>subscriptions := subscriptions st @ [''ticker-'' @ symbol],
            emitted := emitted st @
              [Subscriptions (subscriptions st @ [''ticker-'' @ symbol]),
               SocketNotReady (''socket not ready to subscribe ticker for: '' @ symbol)]\<rparr>)) \<and>
   (socketOpen st \<longrightarrow> ws st = Some w \<longrightarrow> readyState w = 0 \<longrightarrow>
    \<not> falsy (mapCandleInterval interval) \<longrightarrow>
    ''candle-'' @ symbol @ ''-'' @ interval \<notin> set (subscriptions st) \<longrightarrow>
      subscribeCandle mapCandleInterval symbol interval st =
        (Returned,
         st\<lparr>subscriptions := subscriptions st @ [''candle-'' @ symbol @ ''-'' @ interval],
            emitted := emitted st @
              [Subscriptions (subscriptions st @ [''candle-'' @ symbol @ ''-'' @ interval]),
               SocketNotReady
                 (''socket not ready to subscribe candle for: '' @ symbol @ '' '' @
                  interval)]\<rparr>))"
  by (simp add: subscribeTicker_guard unsubscribeTicker_guard subscribeCandle_guard
      unsubscribeCandle_guard not_open_unchanged subscribeTicker_not_ready
      subscribeCandle_not_ready)

text \<open>The flag is set while the socket in hand is still CONNECTING.\<close>

definition open_not_ready :: connection where
  "open_not_ready = connected\<lparr>ws := Some new_WebSocket\<rparr>"

theorem not_connected_iff_socket_not_open_witness:
  "\<not> socketOpen disconnected \<and>
   subscribeTicker ''BTC/USDT'' disconnected = (Thrown NotConnectedError, disconnected) \<and>
   unsubscribeTicker ''BTC/USDT'' disconnected = (Thrown NotConnectedError, disconnected) \<and>
   socketOpen open_not_ready \<and> ws open_not_ready = Some new_WebSocket \<and>
   readyState new_WebSocket = 0 \<and>
   ''ticker-BTC/USDT'' \<notin> set (subscriptions open_not_ready) \<and>
   subscribeTicker ''BTC/USDT'' open_not_ready =
     (Returned,
      open_not_ready\<lparr>subscriptions := [''ticker-BTC/USDT''],
                      emitted := [Subscriptions [''ticker-BTC/USDT''],
                                  SocketNotReady
                                    ''socket not ready to subscribe ticker for: BTC/USDT'']\<rparr>) \<and>
   \<not> falsy (example_intervals ''1m'') \<and>
   ''candle-BTC/USDT-1m'' \<notin> set (subscriptions open_not_ready) \<and>
   subscribeCandle example_intervals ''BTC/USDT'' ''1m'' open_not_ready =
     (Returned,
      open_not_ready\<lparr>subscriptions := [''candle-BTC/USDT-1m''],
                      emitted := [Subscriptions [''candle-BTC/USDT-1m''],
                                  SocketNotReady
                                    ''socket not ready to subscribe candle for: BTC/USDT 1m'']\<rparr>) \<and>
   pushed open_not_ready = [] \<and> written open_not_ready = []"
  using not_connected_iff_socket_not_open
          [of "''BTC/USDT''" disconnected example_intervals "''1m''" new_WebSocket]
        not_connected_iff_socket_not_open
          [of "''BTC/USDT''" open_not_ready example_intervals "''1m''" new_WebSocket]
  by (simp add: disconnected_eq connected_eq open_not_ready_def new_WebSocket_def
      subscribeTicker_def unsubscribeTicker_def subscribeCandle_def falsy_def
      example_intervals_simps emit_def Let_def)

text \<open>
  C2 as stated fails: \<^verbatim>\<open>connect\<close> has succeeded once, the transport has closed since, and
  \<^verbatim>\<open>subscribeTicker\<close> fails with NotConnectedError and registers nothing.
\<close>

theorem not_connected_counterexample:
  "connect example_intervals example_response ''c1'' new_connection = (Some Returned, connected) \<and>
   isSocketOpen connected \<and>
   disconnected = on_close connected \<and>
   subscribeTicker ''BTC/USDT'' disconnected = (Thrown NotConnectedError, disconnected) \<and>
   subscriptions disconnected = [] \<and> queueProcessor disconnected = [] \<and>
   emitted disconnected = []"
  by (simp add: disconnected_def isSocketOpen_def subscribeTicker_def on_close_def connected_eq
      connect_defs new_connection_def example_response_def)

section \<open>Replay after a reconnect\<close>

text \<open>
  A feed is the pair of arguments of a subscribe call. Its key is the text the subscribe call
  stores. A feed is written without a dash when neither its symbol nor its interval holds
  one and its interval is supported.
\<close>

datatype feed = Ticker string | Candle string string

fun feed_key :: "feed \<Rightarrow> string" where
  "feed_key (Ticker symbol) = ''ticker-'' @ symbol"
| "feed_key (Candle symbol interval) = ''candle-'' @ symbol @ ''-'' @ interval"

fun dash_free :: "(string \<rightharpoonup> string) \<Rightarrow> feed \<Rightarrow> bool" where
  "dash_free m (Ticker symbol) = (CHR ''-'' \<notin> set symbol)"
| "dash_free m (Candle symbol interval) =
     (CHR ''-'' \<notin> set symbol \<and> CHR ''-'' \<notin> set interval \<and> \<not> falsy (m interval))"

lemma nth_opt_numeral: "nth_opt (x # xs) (numeral n) = nth_opt xs (pred_numeral n)"
  by (simp add: numeral_eq_Suc)

lemma split_on_absent: "sep \<notin> set s \<Longrightarrow> split_on sep s = [s]"
  by (induction s) auto

lemma split_on_append: "sep \<notin> set s \<Longrightarrow> split_on sep (s @ sep # r) = s # split_on sep r"
  by (induction s) auto

lemma split_ticker_key:
  "CHR ''-'' \<notin> set symbol \<Longrightarrow> split_on CHR ''-'' (''ticker-'' @ symbol) = [''ticker'', symbol]"
  using split_on_append [of "CHR ''-''" "''ticker''" symbol]
  by (simp add: split_on_absent)

lemma split_candle_key:
  "CHR ''-'' \<notin> set symbol \<Longrightarrow> CHR ''-'' \<notin> set interval \<Longrightarrow>
   split_on CHR ''-'' (''candle-'' @ symbol @ ''-'' @ interval) = [''candle'', symbol, interval]"
  using split_on_append [of "CHR ''-''" "''candle''" "symbol @ ''-'' @ interval"]
    split_on_append [of "CHR ''-''" symbol interval]
  by (simp add: split_on_absent)

text \<open>One round of the loop, by the pieces the key splits into.\<close>

lemma replay_ticker:
  assumes "split_on CHR ''-'' k = [''ticker'', symbol]"
  shows "replay m (k # rest) st =
           (case subscribeTicker symbol st of
              (Thrown e, st1) \<Rightarrow> (Thrown e, st1)
            | (Returned, st1) \<Rightarrow> replay m rest st1)"
  using assms
  by (simp add: call_subscribeTicker_def Let_def split: prod.split outcome.split
      del: split_on.simps)

lemma replay_candle:
  assumes "split_on CHR ''-'' k = [''candle'', symbol, interval]"
  shows "replay m (k # rest) st =
           (case subscribeCandle m symbol interval st of
              (Thrown e, st1) \<Rightarrow> (Thrown e, st1)
            | (Returned, st1) \<Rightarrow> replay m rest st1)"
  using assms
  by (simp add: call_subscribeCandle_def nth_opt_numeral Let_def split: prod.split outcome.split
      del: split_on.simps)

text \<open>The subscribe call a feed stands for.\<close>

fun subscribe_feed :: "(string \<rightharpoonup> string) \<Rightarrow> feed \<Rightarrow> connection \<Rightarrow> outcome \<times> connection" where
  "subscribe_feed m (Ticker symbol) st = subscribeTicker symbol st"
| "subscribe_feed m (Candle symbol interval) st = subscribeCandle m symbol interval st"

lemma subscribe_feed_ready:
  assumes "socketOpen st" and "ws st = Some w" and "readyState w \<noteq> 0"
    and "dash_free m f" and "feed_key f \<notin> set (subscriptions st)"
  shows "fst (subscribe_feed m f st) = Returned"
    and "socketOpen (snd (subscribe_feed m f st))"
    and "ws (snd (subscribe_feed m f st)) = Some w"
    and "subscriptions (snd (subscribe_feed m f st)) = subscriptions st @ [feed_key f]"
  using assms
  by (cases f; simp add: subscribeTicker_ready subscribeCandle_ready queue_push_keeps)+

lemma replay_step:
  assumes "socketOpen st" and "ws st = Some w" and "readyState w \<noteq> 0"
    and "dash_free m f" and "feed_key f \<notin> set (subscriptions st)"
  shows "replay m (feed_key f # rest) st = replay m rest (snd (subscribe_feed m f st))"
proof (cases f)
  case (Ticker symbol)
  have split: "split_on CHR ''-'' (feed_key f) = [''ticker'', symbol]"
    using Ticker assms(4) split_ticker_key [of symbol] by simp
  have "fst (subscribeTicker symbol st) = Returned"
    using subscribe_feed_ready(1) [OF assms] Ticker by simp
  then show ?thesis
    unfolding replay_ticker [OF split] using Ticker
    by (cases "subscribeTicker symbol st") simp
next
  case (Candle symbol interval)
  have split: "split_on CHR ''-'' (feed_key f) = [''candle'', symbol, interval]"
    using Candle assms(4) split_candle_key [of symbol interval] by simp
  have "fst (subscribeCandle m symbol interval st) = Returned"
    using subscribe_feed_ready(1) [OF assms] Candle by simp
  then show ?thesis
    unfolding replay_candle [OF split] using Candle
    by (cases "subscribeCandle m symbol interval st") simp
qed

lemma replay_dash_free:
  assumes "socketOpen st" and "ws st = Some w" and "readyState w \<noteq> 0"
    and "\<forall>f \<in> set fs. dash_free m f"
    and "distinct (subscriptions st @ map feed_key fs)"
  shows "fst (replay m (map feed_key fs) st) = Returned \<and>
         subscriptions (snd (replay m (map feed_key fs) st)) =
           subscriptions st @ map feed_key fs"
  using assms
proof (induction fs arbitrary: st)
  case Nil
  then show ?case by simp
next
  case (Cons f fs)
  let ?st1 = "snd (subscribe_feed m f st)"
  have f: "dash_free m f" "feed_key f \<notin> set (subscriptions st)"
    using Cons.prems by auto
  note step = replay_step [OF Cons.prems(1-3) f]
  note st1 = subscribe_feed_ready [OF Cons.prems(1-3) f]
  have "distinct (subscriptions ?st1 @ map feed_key fs)"
    using Cons.prems(5) st1(4) by simp
  moreover have "\<forall>f \<in> set fs. dash_free m f"
    using Cons.prems(4) by simp
  ultimately have "fst (replay m (map feed_key fs) ?st1) = Returned \<and>
         subscriptions (snd (replay m (map feed_key fs) ?st1)) =
           subscriptions ?st1 @ map feed_key fs"
    using Cons.IH [of ?st1] st1(2,3) Cons.prems(3) by blast
  then show ?case
    using step st1(4) by simp
qed

text \<open>
  The close handler followed by a successful \<^verbatim>\<open>reconnect\<close> gives back the subscription list
  it found, when every key in it comes from a feed written without a dash.
\<close>

lemma reconnect_dash_free:
  assumes "subscriptions st = map feed_key fs" and "distinct (subscriptions st)"
    and "\<forall>f \<in> set fs. dash_free m f"
    and "\<not> falsy (token dat)" and "instanceServers dat \<noteq> []"
  shows "fst (reconnect m (Response (Some dat)) cid (on_close st)) = Some Returned \<and>
         subscriptions (snd (reconnect m (Response (Some dat)) cid (on_close st))) =
           subscriptions st"
proof -
  obtain srv rest where srv: "instanceServers dat = srv # rest"
    using assms(5) by (cases "instanceServers dat") auto
  define stA where
    "stA = connect_begin
             (emit (Reconnect (length (subscriptions (on_close st)))) (on_close st))"
  define stB where "stB = snd (connect_response m (Response (Some dat)) cid stA)"
  define stD where
    "stD = stB\<lparr>ws := Some \<lparr>readyState = 1, closeCalled = False\<rparr>,
               socketOpen := True, socketConnecting := False, pingTimer := True\<rparr>"
  have A: "\<not> socketOpen stA" "subscriptions stA = subscriptions st"
    by (simp_all add: stA_def connect_begin_def emit_def on_close_def queue_end_def Let_def)
  have B: "connect_response m (Response (Some dat)) cid stA = (None, stB)"
    "ws stB = Some new_WebSocket" "subscriptions stB = subscriptions st"
    using A assms(4) srv by (simp_all add: stB_def connect_response_def Let_def)
  have C: "transport_opened m stB = (case connect_end m stD of (r, st1) \<Rightarrow> (Some r, st1))"
    using B(2)
    by (simp add: transport_opened_def openWebsocketConnection_welcome_def stD_def
        new_WebSocket_def)
  have D: "socketOpen stD" "ws stD = Some \<lparr>readyState = 1, closeCalled = False\<rparr>"
    "subscriptions stD = subscriptions st"
    using B(3) by (simp_all add: stD_def)
  have R: "reconnect m (Response (Some dat)) cid (on_close st) =
             (case connect_end m stD of (r, st1) \<Rightarrow> (Some r, st1))"
    using B(1) C by (simp add: reconnect_def connect_def stA_def)
  show ?thesis
  proof (cases "subscriptions st = []")
    case True
    then show ?thesis
      using R D by (simp add: connect_end_def)
  next
    case False
    let ?st0 = "stD\<lparr>subscriptions := []\<rparr>"
    have E: "connect_end m stD = replay m (map feed_key fs) ?st0"
      using False D assms(1)
      by (simp add: connect_end_def restartPreviousSubscriptions_def)
    have "fst (replay m (map feed_key fs) ?st0) = Returned \<and>
          subscriptions (snd (replay m (map feed_key fs) ?st0)) =
            subscriptions ?st0 @ map feed_key fs"
    proof (rule replay_dash_free)
      show "socketOpen ?st0" using D by simp
      show "ws ?st0 = Some \<lparr>readyState = 1, closeCalled = False\<rparr>"
        using D by simp
      show "readyState \<lparr>readyState = 1, closeCalled = False\<rparr> \<noteq> 0" by simp
      show "\<forall>f \<in> set fs. dash_free m f" by (rule assms(3))
      show "distinct (subscriptions ?st0 @ map feed_key fs)"
        using assms(1,2) by simp
    qed
    then show ?thesis
      using R E assms(1) by (auto split: prod.split)
  qed
qed

text \<open>A ticker and a candle whose symbol holds a dash, subscribed and then replayed.\<close>

definition dash_subscribed :: connection where
  "dash_subscribed = snd (subscribeTicker ''BTC-USDT'' connected)"

definition dash_replayed :: "outcome option \<times> connection" where
  "dash_replayed = reconnect example_intervals example_response ''c2'' (on_close dash_subscribed)"

definition dash_candle_subscribed :: connection where
  "dash_candle_subscribed = snd (subscribeCandle example_intervals ''BTC-USDT'' ''1m'' connected)"

definition dash_candle_replayed :: "outcome option \<times> connection" where
  "dash_candle_replayed =
     reconnect example_intervals example_response ''c2'' (on_close dash_candle_subscribed)"

lemmas subscribe_defs = subscribeTicker_def subscribeCandle_def call_subscribeTicker_def
  call_subscribeCandle_def example_intervals_simps falsy_def emit_def queue_defs Let_def
  nth_opt_numeral

text \<open>
  C1 at the failing input: the key \<^verbatim>\<open>ticker-BTC-USDT\<close> is split at every dash, so the replay
  subscribes the ticker \<^verbatim>\<open>BTC\<close> and the list changes from \<^verbatim>\<open>ticker-BTC-USDT\<close> to
  \<^verbatim>\<open>ticker-BTC\<close>. The key \<^verbatim>\<open>candle-BTC-USDT-1m\<close> is replayed as the candle \<^verbatim>\<open>BTC\<close> with the
  interval \<^verbatim>\<open>USDT\<close>: the replay throws and the list stays empty.
\<close>

theorem replay_loses_dash_symbol:
  "subscriptions dash_subscribed = [''ticker-BTC-USDT''] \<and>
   fst dash_replayed = Some Returned \<and>
   isSocketOpen (snd dash_replayed) \<and>
   subscriptions (snd dash_replayed) = [''ticker-BTC''] \<and>
   subscriptions dash_candle_subscribed = [''candle-BTC-USDT-1m''] \<and>
   fst dash_candle_replayed = Some (Thrown InvalidIntervalError) \<and>
   subscriptions (snd dash_candle_replayed) = []"
  by (simp add: dash_subscribed_def dash_replayed_def dash_candle_subscribed_def
      dash_candle_replayed_def isSocketOpen_def connected_eq connect_defs subscribe_defs
      example_response_def)

section \<open>The frames written to the transport\<close>

text \<open>
  The jobs the connection pushes are subscribe and unsubscribe jobs. \<open>frame_at now f\<close>: the
  frame \<open>f\<close> is what such a job, or \<^verbatim>\<open>sendPing\<close>, writes at the reading \<open>now\<close> of the clock.
  \<open>wrote st st'\<close>: from \<open>st\<close> to \<open>st'\<close> the clock has not moved, the frames written are frames
  at the reading of \<open>st\<close>, and the jobs that wait are subscribe and unsubscribe jobs.
\<close>

definition job_ok :: "job \<Rightarrow> bool" where
  "job_ok j \<longleftrightarrow> job_type j = ''subscribe'' \<or> job_type j = ''unsubscribe''"

definition jobs_ok :: "connection \<Rightarrow> bool" where
  "jobs_ok st \<longleftrightarrow> (\<forall>j \<in> set (queueProcessor st). job_ok j)"

definition frame_at :: "int \<Rightarrow> frame \<Rightarrow> bool" where
  "frame_at now f \<longleftrightarrow> (\<exists>j. job_ok j \<and> f = job_frame now j) \<or> f = ping_frame now"

definition wrote :: "connection \<Rightarrow> connection \<Rightarrow> bool" where
  "wrote st st' \<longleftrightarrow>
     clock st' = clock st \<and> jobs_ok st' \<and>
     (\<exists>new. written st' = written st @ new \<and> (\<forall>f \<in> set new. frame_at (clock st) f))"

lemma wrote_refl: "jobs_ok st \<Longrightarrow> wrote st st"
  by (simp add: wrote_def)

lemma wrote_trans:
  assumes "wrote a b" and "wrote b c"
  shows "wrote a c"
proof -
  obtain n1 where n1: "written b = written a @ n1" "\<forall>f \<in> set n1. frame_at (clock a) f"
    using assms(1) by (auto simp add: wrote_def)
  obtain n2 where n2: "written c = written b @ n2" "\<forall>f \<in> set n2. frame_at (clock b) f"
    using assms(2) by (auto simp add: wrote_def)
  have "written c = written a @ (n1 @ n2)" "\<forall>f \<in> set (n1 @ n2). frame_at (clock a) f"
    using n1 n2 assms(1) by (auto simp add: wrote_def)
  then show ?thesis
    using assms unfolding wrote_def by metis
qed

lemma wrote_jobs_ok: "wrote st st' \<Longrightarrow> jobs_ok st'"
  by (simp add: wrote_def)

text \<open>Assignments to the other fields are not seen by \<open>wrote\<close>.\<close>

lemma wrote_same:
  assumes "clock st' = clock st" and "written st' = written st"
    and "queueProcessor st' = queueProcessor st" and "jobs_ok st"
  shows "wrote st st'"
  using assms by (simp add: wrote_def jobs_ok_def)

lemma wrote_from:
  assumes "wrote a b" and "clock a' = clock a" and "written a' = written a"
  shows "wrote a' b"
  using assms by (simp add: wrote_def)

lemma send_wrote:
  assumes "jobs_ok st" and "frame_at (clock st) f"
  shows "wrote st (send f st)"
  using assms by (simp add: wrote_def send_def jobs_ok_def split: option.split)

lemma queue_start_wrote:
  assumes "jobs_ok st"
  shows "wrote st (queue_start st)"
proof (cases "queuePending st \<or> queueProcessor st = []")
  case True
  then show ?thesis
    using assms by (auto simp add: queue_start_def wrote_refl)
next
  case False
  then obtain j js where js: "queueProcessor st = j # js"
    by (cases "queueProcessor st") auto
  let ?st1 = "st\<lparr>queueProcessor := js, queuePending := True\<rparr>"
  have "job_ok j" "jobs_ok ?st1"
    using assms js by (simp_all add: jobs_ok_def)
  then have "wrote ?st1 (send (job_frame (clock st) j) ?st1)"
    using send_wrote [of ?st1 "job_frame (clock st) j"] by (auto simp add: frame_at_def)
  then have "wrote st (send (job_frame (clock st) j) ?st1)"
    by (rule wrote_from) simp_all
  then show ?thesis
    using False js by (simp add: queue_start_def)
qed

lemma queue_push_wrote:
  assumes "jobs_ok st" and "job_ok j"
  shows "wrote st (queue_push j st)"
proof -
  let ?st1 = "st\<lparr>queueProcessor := queueProcessor st @ [j], pushed := pushed st @ [j]\<rparr>"
  have "jobs_ok ?st1"
    using assms by (simp add: jobs_ok_def)
  then have "wrote ?st1 (queue_start ?st1)"
    by (rule queue_start_wrote)
  then show ?thesis
    unfolding queue_push_def by (rule wrote_from) simp_all
qed

lemma queue_timeout_wrote:
  assumes "jobs_ok st"
  shows "wrote st (queue_timeout st)"
proof (cases "queuePending st")
  case True
  let ?st1 = "st\<lparr>queuePending := False\<rparr>"
  have "jobs_ok ?st1"
    using assms by (simp add: jobs_ok_def)
  then have "wrote ?st1 (queue_start ?st1)"
    by (rule queue_start_wrote)
  then have "wrote st (queue_start ?st1)"
    by (rule wrote_from) simp_all
  then show ?thesis
    using True by (simp add: queue_timeout_def)
next
  case False
  then show ?thesis
    using assms by (simp add: queue_timeout_def wrote_refl)
qed

text \<open>The operations of the class.\<close>

lemma subscribeTicker_wrote:
  assumes "jobs_ok st"
  shows "wrote st (snd (subscribeTicker symbol st))"
proof -
  let ?st2 = "st\<lparr>subscriptions := subscriptions st @ [''ticker-'' @ symbol],
                 emitted := emitted st @
                   [Subscriptions (subscriptions st @ [''ticker-'' @ symbol])]\<rparr>"
  let ?j = "Job ''subscribe'' (''/market/ticker:'' @ replace_first CHR ''/'' CHR ''-'' symbol)"
  have "jobs_ok ?st2"
    using assms by (simp add: jobs_ok_def)
  then have "wrote ?st2 (queue_push ?j ?st2)"
    by (rule queue_push_wrote) (simp add: job_ok_def)
  then have "wrote st (queue_push ?j ?st2)"
    by (rule wrote_from) simp_all
  then show ?thesis
    using assms
    by (auto simp add: subscribeTicker_def emit_def Let_def wrote_refl wrote_same
        split: option.split)
qed

lemma unsubscribeTicker_wrote:
  assumes "jobs_ok st"
  shows "wrote st (snd (unsubscribeTicker symbol st))"
proof -
  let ?j = "Job ''unsubscribe'' (''/market/ticker:'' @ replace_first CHR ''/'' CHR ''-'' symbol)"
  have "wrote st (queue_push ?j st)"
    using assms by (rule queue_push_wrote) (simp add: job_ok_def)
  then show ?thesis
    using assms
    by (auto simp add: unsubscribeTicker_def emit_def Let_def wrote_refl wrote_def jobs_ok_def)
qed

lemma subscribeCandle_wrote:
  assumes "jobs_ok st"
  shows "wrote st (snd (subscribeCandle m symbol interval st))"
proof -
  let ?k = "''candle-'' @ symbol @ ''-'' @ interval"
  let ?st2 = "st\<lparr>subscriptions := subscriptions st @ [?k],
                 emitted := emitted st @ [Subscriptions (subscriptions st @ [?k])]\<rparr>"
  let ?j = "Job ''subscribe''
              (''/market/candles:'' @ replace_first CHR ''/'' CHR ''-'' symbol @ ''_'' @
               the (m interval))"
  have "jobs_ok ?st2"
    using assms by (simp add: jobs_ok_def)
  then have "wrote ?st2 (queue_push ?j ?st2)"
    by (rule queue_push_wrote) (simp add: job_ok_def)
  then have "wrote st (queue_push ?j ?st2)"
    by (rule wrote_from) simp_all
  then show ?thesis
    using assms
    by (auto simp add: subscribeCandle_def emit_def Let_def wrote_refl wrote_same
        split: option.split)
qed

lemma unsubscribeCandle_wrote:
  assumes "jobs_ok st"
  shows "wrote st (snd (unsubscribeCandle m symbol interval st))"
proof -
  let ?j = "Job ''unsubscribe''
              (''/market/candles:'' @ replace_first CHR ''/'' CHR ''-'' symbol @ ''_'' @
               the (m interval))"
  have "wrote st (queue_push ?j st)"
    using assms by (rule queue_push_wrote) (simp add: job_ok_def)
  then show ?thesis
    using assms
    by (auto simp add: unsubscribeCandle_def emit_def Let_def wrote_refl wrote_def jobs_ok_def)
qed

lemma sendPing_wrote:
  assumes "jobs_ok st"
  shows "wrote st (snd (sendPing st))"
  using assms by (simp add: sendPing_def wrote_refl send_wrote frame_at_def)

lemma closeConnection_wrote:
  assumes "jobs_ok st"
  shows "wrote st (snd (closeConnection st))"
  using assms
  by (auto simp add: closeConnection_def Let_def wrote_refl wrote_same split: option.split)

lemma on_close_wrote:
  assumes "jobs_ok st"
  shows "wrote st (on_close st)"
  using assms by (simp add: on_close_def queue_end_def Let_def wrote_def jobs_ok_def)

text \<open>The replay, and \<^verbatim>\<open>connect\<close> around it.\<close>

lemma call_subscribeTicker_wrote:
  assumes "jobs_ok st"
  shows "wrote st (snd (call_subscribeTicker symbol st))"
  using assms
  by (simp add: call_subscribeTicker_def subscribeTicker_wrote wrote_refl split: option.split)

lemma call_subscribeCandle_wrote:
  assumes "jobs_ok st"
  shows "wrote st (snd (call_subscribeCandle m symbol timeFrame st))"
  using assms
  by (simp add: call_subscribeCandle_def subscribeCandle_wrote wrote_refl split: option.split)

lemma replay_wrote:
  assumes "jobs_ok st"
  shows "wrote st (snd (replay m subs st))"
  using assms
proof (induction subs arbitrary: st)
  case Nil
  then show ?case by (simp add: wrote_refl)
next
  case (Cons k rest)
  define parts where "parts = split_on CHR ''-'' k"
  define r1 where
    "r1 = (if nth_opt parts 0 = Some ''ticker''
           then call_subscribeTicker (nth_opt parts 1) st else (Returned, st))"
  define r2 where
    "r2 = (if nth_opt parts 0 = Some ''candle''
           then call_subscribeCandle m (nth_opt parts 1) (nth_opt parts 2) (snd r1)
           else (Returned, snd r1))"
  have w1: "wrote st (snd r1)"
    unfolding r1_def using Cons.prems by (simp add: call_subscribeTicker_wrote wrote_refl)
  have w2: "wrote (snd r1) (snd r2)"
    unfolding r2_def using wrote_jobs_ok [OF w1]
    by (simp add: call_subscribeCandle_wrote wrote_refl)
  have w3: "wrote (snd r2) (snd (replay m rest (snd r2)))"
    using wrote_jobs_ok [OF w2] by (rule Cons.IH)
  note w12 = wrote_trans [OF w1 w2]
  note w123 = wrote_trans [OF w12 w3]
  have "snd (replay m (k # rest) st) =
          (case fst r1 of
             Thrown e \<Rightarrow> snd r1
           | Returned \<Rightarrow>
               (case fst r2 of
                  Thrown e \<Rightarrow> snd r2
                | Returned \<Rightarrow> snd (replay m rest (snd r2))))"
    unfolding r1_def r2_def parts_def
    by (simp add: Let_def split: prod.split outcome.split del: split_on.simps)
  then show ?case
    using w1 w12 w123 by (simp split: outcome.split)
qed

lemma restartPreviousSubscriptions_wrote:
  assumes "jobs_ok st"
  shows "wrote st (snd (restartPreviousSubscriptions m st))"
proof -
  let ?st0 = "st\<lparr>subscriptions := []\<rparr>"
  have "jobs_ok ?st0"
    using assms by (simp add: jobs_ok_def)
  then have "wrote ?st0 (snd (replay m (subscriptions st) ?st0))"
    by (rule replay_wrote)
  then have "wrote st (snd (replay m (subscriptions st) ?st0))"
    by (rule wrote_from) simp_all
  then show ?thesis
    using assms
    by (auto simp add: restartPreviousSubscriptions_def emit_def Let_def wrote_refl wrote_same
        split: option.split)
qed

lemma connect_end_wrote:
  assumes "jobs_ok st"
  shows "wrote st (snd (connect_end m st))"
  using assms by (simp add: connect_end_def restartPreviousSubscriptions_wrote wrote_refl)

lemma connect_response_wrote:
  assumes "jobs_ok st"
  shows "wrote st (snd (connect_response m response cid st))"
proof (cases response)
  case RequestRejected
  then show ?thesis
    using assms by (simp add: connect_response_def wrote_refl)
next
  case (Response d)
  show ?thesis
  proof (cases d)
    case None
    then show ?thesis
      using assms Response by (simp add: connect_response_def wrote_same)
  next
    case (Some dat)
    show ?thesis
    proof (cases "instanceServers dat")
      case Nil
      then show ?thesis
        using assms Response Some by (simp add: connect_response_def wrote_same wrote_refl)
    next
      case (Cons srv rest)
      let ?st1 = "st\<lparr>askingClose := False, candleCache := [], connectId := cid,
                     pingIntervalMs := pingInterval srv,
                     wsPath := endpoint srv @ ''?token='' @ the (token dat) @
                               ''&connectId='' @ cid\<rparr>"
      have "jobs_ok ?st1"
        using assms by (simp add: jobs_ok_def)
      then have "wrote ?st1 (snd (connect_end m ?st1))"
        by (rule connect_end_wrote)
      then have "wrote st (snd (connect_end m ?st1))"
        by (rule wrote_from) simp_all
      then show ?thesis
        using assms Response Some Cons
        by (simp add: connect_response_def Let_def wrote_same split_beta)
    qed
  qed
qed

lemma transport_opened_wrote:
  assumes "jobs_ok st"
  shows "wrote st (snd (transport_opened m st))"
proof (cases "ws st")
  case None
  then show ?thesis
    using assms by (simp add: transport_opened_def wrote_refl)
next
  case (Some w)
  let ?st1 = "st\<lparr>ws := Some (w\<lparr>readyState := 1\<rparr>), socketOpen := True,
                 socketConnecting := False, pingTimer := True\<rparr>"
  have "jobs_ok ?st1"
    using assms by (simp add: jobs_ok_def)
  then have "wrote ?st1 (snd (connect_end m ?st1))"
    by (rule connect_end_wrote)
  then have "wrote st (snd (connect_end m ?st1))"
    by (rule wrote_from) simp_all
  then show ?thesis
    using assms Some
    by (simp add: transport_opened_def openWebsocketConnection_welcome_def wrote_refl
        split_beta)
qed

text \<open>Every event but the passing of time.\<close>

lemma step_wrote:
  assumes "jobs_ok st" and "\<forall>n. ev \<noteq> ClockAdvanced n"
  shows "wrote st (step m st ev)"
  using assms
  by (cases ev)
    (simp_all add: subscribeTicker_wrote unsubscribeTicker_wrote subscribeCandle_wrote
      unsubscribeCandle_wrote sendPing_wrote closeConnection_wrote on_close_wrote
      connect_response_wrote transport_opened_wrote queue_timeout_wrote wrote_same
      connect_begin_def emit_def)


lemma frame_at_shape:
  assumes "frame_at now f"
  shows "map_of f ''id'' = Some (JNum now)"
    and "map_of f ''type'' = Some (JStr ''ping'') \<and>
           map_of f ''privateChannel'' = None \<and> map_of f ''response'' = None \<or>
         (map_of f ''type'' = Some (JStr ''subscribe'') \<or>
          map_of f ''type'' = Some (JStr ''unsubscribe'')) \<and>
           map_of f ''privateChannel'' = Some (JBool False) \<and>
           map_of f ''response'' = Some (JBool True)"
  using assms by (auto simp add: frame_at_def job_ok_def job_frame_def ping_frame_def)

lemma run_snoc: "run m (evs @ [ev]) st = step m (run m evs st) ev"
  by (simp add: run_def)

text \<open>What one event adds to the frames written.\<close>

lemma step_written:
  assumes "jobs_ok st"
  shows "jobs_ok (step m st ev)"
    and "\<exists>new. written (step m st ev) = written st @ new \<and>
           (\<forall>f \<in> set new. frame_at (clock st) f)"
proof -
  show "jobs_ok (step m st ev)"
  proof (cases "\<exists>n. ev = ClockAdvanced n")
    case True
    then show ?thesis
      using assms by (auto simp add: jobs_ok_def)
  next
    case False
    then show ?thesis
      using step_wrote [OF assms, of ev m] by (simp add: wrote_def)
  qed
  show "\<exists>new. written (step m st ev) = written st @ new \<and>
          (\<forall>f \<in> set new. frame_at (clock st) f)"
  proof (cases "\<exists>n. ev = ClockAdvanced n")
    case True
    then show ?thesis by auto
  next
    case False
    then show ?thesis
      using step_wrote [OF assms, of ev m] by (simp add: wrote_def)
  qed
qed

lemma run_written:
  "jobs_ok (run m evs new_connection) \<and>
   (\<forall>f \<in> set (written (run m evs new_connection)). \<exists>now. frame_at now f)"
proof (induction evs rule: rev_induct)
  case Nil
  show ?case
    by (simp add: run_def new_connection_def jobs_ok_def)
next
  case (snoc ev evs)
  let ?st = "run m evs new_connection"
  obtain new where new: "written (step m ?st ev) = written ?st @ new"
    "\<forall>f \<in> set new. frame_at (clock ?st) f"
    using step_written(2) [of ?st m ev] snoc.IH by blast
  show ?case
    using snoc.IH step_written(1) [of ?st m ev] new by (auto simp add: run_snoc)
qed

text \<open>
  C9, as the code has it. In every execution of a connection, every frame written to the
  transport has a numeric \<^verbatim>\<open>id\<close>, and it is either a subscribe or unsubscribe frame with
  \<^verbatim>\<open>privateChannel: false\<close> and \<^verbatim>\<open>response: true\<close>, or a ping frame with neither member. The
  frames an event adds all carry as their \<^verbatim>\<open>id\<close> the reading of the clock at that event:
  the \<^verbatim>\<open>id\<close> tells two frames apart only when the clock has moved between them.
\<close>

theorem wire_frame_shape:
  "(\<forall>f \<in> set (written (run m evs new_connection)).
      (\<exists>n. map_of f ''id'' = Some (JNum n)) \<and>
      (map_of f ''type'' = Some (JStr ''ping'') \<and>
         map_of f ''privateChannel'' = None \<and> map_of f ''response'' = None \<or>
       (map_of f ''type'' = Some (JStr ''subscribe'') \<or>
        map_of f ''type'' = Some (JStr ''unsubscribe'')) \<and>
         map_of f ''privateChannel'' = Some (JBool False) \<and>
         map_of f ''response'' = Some (JBool True))) \<and>
   (\<exists>new. written (step m (run m evs new_connection) ev) =
             written (run m evs new_connection) @ new \<and>
          (\<forall>f \<in> set new. map_of f ''id'' = Some (JNum (clock (run m evs new_connection)))))"
proof (intro conjI ballI)
  fix f
  assume "f \<in> set (written (run m evs new_connection))"
  then obtain now where now: "frame_at now f"
    using run_written [of m evs] by blast
  show "\<exists>n. map_of f ''id'' = Some (JNum n)"
    using frame_at_shape(1) [OF now] by blast
  show "map_of f ''type'' = Some (JStr ''ping'') \<and>
          map_of f ''privateChannel'' = None \<and> map_of f ''response'' = None \<or>
        (map_of f ''type'' = Some (JStr ''subscribe'') \<or>
         map_of f ''type'' = Some (JStr ''unsubscribe'')) \<and>
          map_of f ''privateChannel'' = Some (JBool False) \<and>
          map_of f ''response'' = Some (JBool True)"
    by (rule frame_at_shape(2) [OF now])
next
  have "jobs_ok (run m evs new_connection)"
    using run_written [of m evs] by simp
  then show "\<exists>new. written (step m (run m evs new_connection) ev) =
                    written (run m evs new_connection) @ new \<and>
               (\<forall>f \<in> set new. map_of f ''id'' = Some (JNum (clock (run m evs new_connection))))"
    using step_written(2) [of "run m evs new_connection" m ev] frame_at_shape(1) by blast
qed

lemma subscribe_then_ping_run:
  "run example_intervals (butlast subscribe_then_ping) new_connection =
     connected\<lparr>subscriptions := [''ticker-BTC/USDT''],
               queuePending := True,
               emitted := [Subscriptions [''ticker-BTC/USDT'']],
               pushed := [Job ''subscribe'' ''/market/ticker:BTC-USDT''],
               written := [job_frame 19500 (Job ''subscribe'' ''/market/ticker:BTC-USDT'')],
               clock := 19500\<rparr>"
  by (simp add: run_def subscribe_then_ping_def connected_eq connect_defs subscribeTicker_def
      queue_defs new_connection_def example_response_def Let_def)

theorem wire_frame_shape_witness:
  "written (run example_intervals (butlast subscribe_then_ping) new_connection) =
     [job_frame 19500 (Job ''subscribe'' ''/market/ticker:BTC-USDT'')] \<and>
   map_of (job_frame 19500 (Job ''subscribe'' ''/market/ticker:BTC-USDT'')) ''id'' =
     Some (JNum 19500) \<and>
   map_of (job_frame 19500 (Job ''subscribe'' ''/market/ticker:BTC-USDT'')) ''type'' =
     Some (JStr ''subscribe'') \<and>
   map_of (job_frame 19500 (Job ''subscribe'' ''/market/ticker:BTC-USDT'')) ''privateChannel'' =
     Some (JBool False) \<and>
   map_of (job_frame 19500 (Job ''subscribe'' ''/market/ticker:BTC-USDT'')) ''response'' =
     Some (JBool True) \<and>
   written (step example_intervals
              (run example_intervals (butlast subscribe_then_ping) new_connection) PingDue) =
     written (run example_intervals (butlast subscribe_then_ping) new_connection) @
       [ping_frame 19500] \<and>
   map_of (ping_frame 19500) ''id'' = Some (JNum 19500)"
  using wire_frame_shape [of example_intervals "butlast subscribe_then_ping" PingDue]
  by (simp add: subscribe_then_ping_run connected_eq sendPing_def send_def job_frame_def
      ping_frame_def)

text \<open>
  C9 as the specification words it does not hold. A ticker is subscribed and the keepalive
  timer fires at the same reading of the clock: the subscribe frame and the ping frame are
  written with the same \<^verbatim>\<open>id\<close>, and the ping frame has neither \<^verbatim>\<open>privateChannel\<close> nor
  \<^verbatim>\<open>response\<close>.
\<close>

theorem wire_frame_counterexample:
  "written (run example_intervals subscribe_then_ping new_connection) =
     [[(''id'', JNum 19500), (''type'', JStr ''subscribe''),
       (''topic'', JStr ''/market/ticker:BTC-USDT''),
       (''privateChannel'', JBool False), (''response'', JBool True)],
      [(''id'', JNum 19500), (''type'', JStr ''ping'')]]"
  by (simp add: run_def subscribe_then_ping_def connect_defs subscribeTicker_def sendPing_def
      queue_defs new_connection_def example_response_def job_frame_def ping_frame_def Let_def)

section \<open>The router (class of the first module, lines 7 to 137)\<close>

text \<open>
  The router keeps a list of clients and hands every subscription to the last of them. The
  class \<^verbatim>\<open>Client\<close> of the module \<^verbatim>\<open>client\<close> and the key helpers of the module \<^verbatim>\<open>util\<close>, which
  the router imports, are described by the specification only: the client is the
  Connection of the specification, with the part of its contract the router relies on.
\<close>

text \<open>
  Modelled from the spec: the Connection State, one of \<^verbatim>\<open>Disconnected\<close>, \<^verbatim>\<open>Connecting\<close>, \<^verbatim>\<open>Open\<close>
  and \<^verbatim>\<open>Closing\<close>.
\<close>

datatype connection_state = Disconnected | Connecting | Open | Closing




















section \<open>Sharding of the subscriptions over the clients\<close>









end
